theory Spec2Isabelle
  imports Main "HOL-Library.Word"
begin

section \<open>Data model of \<open>remover/views.py\<close>\<close>

text \<open>
  Python \<open>bytes\<close> are lists of octets. An uploaded file (Django's \<open>UploadedFile\<close>) carries a
  declared name, a declared content type and its byte content; its \<open>size\<close> attribute is the
  number of bytes received.
\<close>

type_synonym bytes = "8 word list"

record upload =
  name :: string
  content_type :: string
  content :: bytes

definition upload_size :: "upload \<Rightarrow> nat" where
  "upload_size u = length (content u)"

text \<open>
  The two \<open>except\<close> clauses of \<open>post\<close> select by class. Of an exception the handler can only
  observe which of the two named classes it is an instance of, and \<open>str(e)\<close>. The class
  \<open>UnidentifiedImageError\<close> derives from \<open>Exception\<close>; \<open>BaseException_only\<close> stands for the
  exceptions outside \<open>Exception\<close> (\<open>KeyboardInterrupt\<close>, \<open>SystemExit\<close>, \<open>GeneratorExit\<close>).
\<close>

datatype exn_class = UnidentifiedImageError | Exception_other | BaseException_only

datatype py_exn = Raise exn_class string

fun isinstance_UnidentifiedImageError :: "py_exn \<Rightarrow> bool" where
  "isinstance_UnidentifiedImageError (Raise c m) = (c = UnidentifiedImageError)"

fun isinstance_Exception :: "py_exn \<Rightarrow> bool" where
  "isinstance_Exception (Raise c m) = (c = UnidentifiedImageError \<or> c = Exception_other)"

fun str_exn :: "py_exn \<Rightarrow> string" where
  "str_exn (Raise c m) = m"

text \<open>
  A decoded image (\<open>PIL.Image\<close>) has a \<open>format\<close> attribute, which is \<open>None\<close> or a string; the
  rest of the image (mode, dimensions, pixel data) is the extension of the record.
\<close>

record image =
  format :: "string option"

text \<open>
  A response is either Django's \<open>HttpResponse\<close> (raw content, explicit content type, status 200
  by default) or the framework's \<open>Response\<close> (structured data, explicit status, content type
  left to the renderer). The structured data of this view is either a dictionary of strings or
  the serializer's \<open>errors\<close>.
\<close>

datatype 'e body = Content bytes | Data "(string \<times> string) list" | Errors 'e

record 'e response =
  status_code :: nat
  response_content_type :: "string option"
  body :: "'e body"

definition HTTP_400_BAD_REQUEST :: nat where
  "HTTP_400_BAD_REQUEST = 400"

definition HTTP_500_INTERNAL_SERVER_ERROR :: nat where
  "HTTP_500_INTERNAL_SERVER_ERROR = 500"

definition HttpResponse :: "bytes \<Rightarrow> string \<Rightarrow> 'e response" where
  "HttpResponse c ct = \<lparr>status_code = 200, response_content_type = Some ct, body = Content c\<rparr>"

definition Response :: "'e body \<Rightarrow> nat \<Rightarrow> 'e response" where
  "Response d st = \<lparr>status_code = st, response_content_type = None, body = d\<rparr>"

section \<open>The handler \<open>RemoveBackgroundView.post\<close>\<close>

text \<open>
  The collaborators of the handler are not part of the view: the serializer, Pillow's
  \<open>Image.open\<close> and \<open>Image.save\<close>, and \<open>rembg.remove\<close>. Each is a parameter. Each may raise
  (\<open>Inl\<close>) and may have effects on the world outside the handler, so each is a function of a
  state \<open>'s\<close> and returns the new one. The serializer parameter stands for constructing the
  serializer on \<open>request.data\<close> and calling \<open>is_valid()\<close>: \<open>Inr\<close> carries
  \<open>validated_data["image"]\<close>, \<open>Inl\<close> carries \<open>serializer.errors\<close>.
\<close>

type_synonym ('s, 'a) effect = "'s \<Rightarrow> (py_exn + 'a) \<times> 's"

text \<open>Line 23: \<open>input_image.format if input_image.format else "PNG"\<close> (\<open>None\<close> and the empty
  string are both false).\<close>

definition image_format :: "'m image_scheme \<Rightarrow> string" where
  "image_format input_image =
     (case format input_image of
        None \<Rightarrow> ''PNG''
      | Some f \<Rightarrow> if f = [] then ''PNG'' else f)"

text \<open>Lines 21 to 31: the body of the \<open>try\<close> statement. The first exception raised ends it.\<close>

definition try_body ::
  "(upload \<Rightarrow> ('s, 'm image_scheme) effect) \<Rightarrow>
   ('m image_scheme \<Rightarrow> string \<Rightarrow> ('s, bytes) effect) \<Rightarrow>
   (bytes \<Rightarrow> ('s, bytes) effect) \<Rightarrow>
   upload \<Rightarrow> ('s, 'e response) effect" where
  "try_body image_open save remove image_file s =
     (case image_open image_file s of
        (Inl e, s1) \<Rightarrow> (Inl e, s1)
      | (Inr input_image, s1) \<Rightarrow>
          (case save input_image (image_format input_image) s1 of
             (Inl e, s2) \<Rightarrow> (Inl e, s2)
           | (Inr image_bytes, s2) \<Rightarrow>
               (case remove image_bytes s2 of
                  (Inl e, s3) \<Rightarrow> (Inl e, s3)
                | (Inr output_bytes, s3) \<Rightarrow>
                    (Inr (HttpResponse output_bytes ''image/png''), s3))))"

text \<open>Lines 33 to 42: the \<open>except\<close> clauses, tried in order. An exception that matches
  neither clause leaves the handler.\<close>

definition except_clauses :: "py_exn \<Rightarrow> py_exn + 'e response" where
  "except_clauses e =
     (if isinstance_UnidentifiedImageError e then
        Inr (Response (Data [(''error'', ''The uploaded file is not a valid image.'')])
               HTTP_400_BAD_REQUEST)
      else if isinstance_Exception e then
        Inr (Response (Data [(''error'', ''Failed to process image.''), (''details'', str_exn e)])
               HTTP_500_INTERNAL_SERVER_ERROR)
      else Inl e)"

text \<open>Lines 14 to 44.\<close>

definition post ::
  "('d \<Rightarrow> 's \<Rightarrow> ('e + upload) \<times> 's) \<Rightarrow>
   (upload \<Rightarrow> ('s, 'm image_scheme) effect) \<Rightarrow>
   ('m image_scheme \<Rightarrow> string \<Rightarrow> ('s, bytes) effect) \<Rightarrow>
   (bytes \<Rightarrow> ('s, bytes) effect) \<Rightarrow>
   'd \<Rightarrow> ('s, 'e response) effect" where
  "post serializer image_open save remove request_data s =
     (case serializer request_data s of
        (Inr image_file, s1) \<Rightarrow>
          (case try_body image_open save remove image_file s1 of
             (Inr r, s2) \<Rightarrow> (Inr r, s2)
           | (Inl e, s2) \<Rightarrow> (except_clauses e, s2))
      | (Inl errors, s1) \<Rightarrow> (Inr (Response (Errors errors) HTTP_400_BAD_REQUEST), s1))"

section \<open>The upload validator\<close>

text \<open>
  Modelled from the spec: the class \<open>ImageUploadSerializer\<close> of \<open>remover/serializers.py\<close> and
  its constant \<open>MAX_UPLOAD_SIZE\<close> are not among the sources; the view only constructs the
  serializer, calls \<open>is_valid()\<close> and reads \<open>validated_data["image"]\<close> or \<open>errors\<close>. Following
  section 4.1 of the specification: the payload holds zero or one file field named \<open>image\<close>;
  a missing field fails with an error keyed by the field name (rule 1); a byte length above the
  fixed maximum fails with an error keyed by the field name (rule 2); otherwise the upload is
  returned unchanged, without decoding and without side effects. The maximum is a parameter,
  and the two messages, whose wording the specification leaves open, are the two values of
  \<open>validation_error\<close>.
\<close>

datatype validation_error = Required | Too_large

type_synonym field_errors = "(string \<times> validation_error list) list"

definition ImageUploadSerializer :: "nat \<Rightarrow> (string \<rightharpoonup> upload) \<Rightarrow> field_errors + upload" where
  "ImageUploadSerializer MAX_UPLOAD_SIZE request_data =
     (case request_data ''image'' of
        None \<Rightarrow> Inl [(''image'', [Required])]
      | Some value \<Rightarrow>
          if upload_size value > MAX_UPLOAD_SIZE then Inl [(''image'', [Too_large])]
          else Inr value)"

text \<open>
  Modelled from the spec: constructing \<open>ImageUploadSerializer(data=request.data)\<close> and calling
  \<open>is_valid()\<close>, as the handler's serializer parameter expects it. Validation has no side
  effect (section 4.1), so the state is returned as it was.
\<close>

definition is_valid ::
  "nat \<Rightarrow> (string \<rightharpoonup> upload) \<Rightarrow> 's \<Rightarrow> (field_errors + upload) \<times> 's" where
  "is_valid MAX_UPLOAD_SIZE request_data s =
     (ImageUploadSerializer MAX_UPLOAD_SIZE request_data, s)"

section \<open>Sample collaborators\<close>

text \<open>
  Concrete stand-ins for the collaborators, used to run the handler on explicit requests. The
  state is a small world: the files on disk, and the list of arguments the removal function has
  been called with, so a run shows whether and with what it was called. The sample decoder
  accepts exactly the byte strings that start with the PNG signature and ignores what follows
  it; the sample encoder writes the signature alone.
\<close>

record world =
  files :: "(string \<times> bytes) list"
  calls :: "bytes list"

definition world0 :: world where
  "world0 = \<lparr>files = [(''media/keep.txt'', [107, 101, 101, 112])], calls = []\<rparr>"

definition png_signature :: bytes where
  "png_signature = [137, 80, 78, 71, 13, 10, 26, 10]"

definition sample_png :: upload where
  "sample_png = \<lparr>name = ''test.png'', content_type = ''image/png'',
                  content = png_signature @ [0, 255]\<rparr>"

definition sample_text :: upload where
  "sample_text = \<lparr>name = ''not_image.txt'', content_type = ''image/png'',
                   content = [110, 111, 116, 32, 97, 110, 32, 105, 109, 97, 103, 101]\<rparr>"

definition sample_open :: "upload \<Rightarrow> (world, image) effect" where
  "sample_open u s =
     (if take 8 (content u) = png_signature then (Inr \<lparr>format = Some ''PNG''\<rparr>, s)
      else (Inl (Raise UnidentifiedImageError ''cannot identify image file''), s))"

definition sample_save :: "image \<Rightarrow> string \<Rightarrow> (world, bytes) effect" where
  "sample_save img fmt s =
     (if fmt = ''PNG'' then (Inr png_signature, s)
      else (Inl (Raise Exception_other ''unknown file extension''), s))"

definition sample_remove :: "bytes \<Rightarrow> (world, bytes) effect" where
  "sample_remove b s = (Inr (b @ [1]), s\<lparr>calls := calls s @ [b]\<rparr>)"

definition sample_remove_raising :: "py_exn \<Rightarrow> bytes \<Rightarrow> (world, bytes) effect" where
  "sample_remove_raising e b s = (Inl e, s\<lparr>calls := calls s @ [b]\<rparr>)"

text \<open>A removal function that accepts one input only, and an upload that is \<open>sample_png\<close>
  followed by padding.\<close>

definition sample_remove_only :: "bytes \<Rightarrow> bytes \<Rightarrow> (world, bytes) effect" where
  "sample_remove_only expected b s =
     (if b = expected then sample_remove b s
      else (Inl (Raise Exception_other ''unexpected input''), s))"

definition sample_png_padded :: upload where
  "sample_png_padded = sample_png\<lparr>content := png_signature @ [0, 255, 48, 48, 48]\<rparr>"

section \<open>Runs of the handler on the samples\<close>

lemma is_valid_sample_png:
  "is_valid 100 [''image'' \<mapsto> sample_png] s = (Inr sample_png, s)"
  by (simp add: is_valid_def ImageUploadSerializer_def upload_size_def sample_png_def
      png_signature_def)


lemma sample_open_png: "sample_open sample_png s = (Inr \<lparr>format = Some ''PNG''\<rparr>, s)"
  by (simp add: sample_open_def sample_png_def png_signature_def)


lemma is_valid_sample_png_padded:
  "is_valid 100 [''image'' \<mapsto> sample_png_padded] s = (Inr sample_png_padded, s)"
  by (simp add: is_valid_def ImageUploadSerializer_def upload_size_def sample_png_padded_def
      png_signature_def)

lemma sample_open_png_padded:
  "sample_open sample_png_padded s = (Inr \<lparr>format = Some ''PNG''\<rparr>, s)"
  by (simp add: sample_open_def sample_png_padded_def png_signature_def)

lemma sample_save_png:
  "sample_save \<lparr>format = Some ''PNG''\<rparr> (image_format \<lparr>format = Some ''PNG''\<rparr>) s =
     (Inr png_signature, s)"
  by (simp add: sample_save_def image_format_def)

section \<open>Unfolding the handler\<close>




lemmas response_defs = Response_def HttpResponse_def HTTP_400_BAD_REQUEST_def
  HTTP_500_INTERNAL_SERVER_ERROR_def

section \<open>Success\<close>

text \<open>
  C1. For every upload that passes validation, decodes and re-encodes, when the removal
  function returns the bytes \<open>B\<close>, the handler returns status 200, content type \<open>image/png\<close> and
  a body that is exactly \<open>B\<close>, whatever \<open>B\<close> is.
\<close>

theorem post_success:
  assumes "serializer d s = (Inr u, s1)"
    and "image_open u s1 = (Inr img, s2)"
    and "save img (image_format img) s2 = (Inr canon, s3)"
    and "remove canon s3 = (Inr B, s4)"
  shows "post serializer image_open save remove d s =
           (Inr \<lparr>status_code = 200, response_content_type = Some ''image/png'',
                 body = Content B\<rparr>, s4)"
  using assms by (simp add: post_def try_body_def HttpResponse_def)

theorem post_success_witness:
  "post (is_valid 100) sample_open sample_save sample_remove [''image'' \<mapsto> sample_png] world0 =
     (Inr \<lparr>status_code = 200, response_content_type = Some ''image/png'',
           body = Content (png_signature @ [1])\<rparr>, world0\<lparr>calls := [png_signature]\<rparr>)"
proof -
  have h4: "sample_remove png_signature world0 =
      (Inr (png_signature @ [1]), world0\<lparr>calls := [png_signature]\<rparr>)"
    by (simp add: sample_remove_def world0_def)
  show ?thesis
    using post_success [where serializer = "is_valid 100" and image_open = sample_open
        and save = sample_save and remove = sample_remove,
        OF is_valid_sample_png sample_open_png sample_save_png h4]
    by simp
qed

section \<open>Decode failures and the classification of failures\<close>




section \<open>Processing errors\<close>

text \<open>
  C3, as stated, says that any error raised by re-encoding or by the removal function is
  answered with 500. An \<open>UnidentifiedImageError\<close> raised by the removal function is answered
  with 400, and an exception outside \<open>Exception\<close> is not answered at all: it leaves the handler.
\<close>

theorem post_removal_error_not_500_counterexample:
  "fst (post (is_valid 100) sample_open sample_save
          (sample_remove_raising (Raise UnidentifiedImageError ''cannot identify image file''))
          [''image'' \<mapsto> sample_png] world0) =
     Inr \<lparr>status_code = 400, response_content_type = None,
          body = Data [(''error'', ''The uploaded file is not a valid image.'')]\<rparr>
   \<and> fst (post (is_valid 100) sample_open sample_save
          (sample_remove_raising (Raise BaseException_only ''KeyboardInterrupt''))
          [''image'' \<mapsto> sample_png] world0) =
     Inl (Raise BaseException_only ''KeyboardInterrupt'')"
  by (simp add: post_def try_body_def is_valid_sample_png sample_open_png sample_save_png
      sample_remove_raising_def except_clauses_def response_defs)

text \<open>
  C3, amended. For every validated upload that decodes, when re-encoding or the removal
  function raises an exception that derives from \<open>Exception\<close> and is not an
  \<open>UnidentifiedImageError\<close>, the handler answers 500, with \<open>error\<close> equal to
  "Failed to process image." and \<open>details\<close> equal to \<open>str(e)\<close>, the text of the exception and
  nothing else.
\<close>

theorem post_processing_error:
  assumes "serializer d s = (Inr u, s1)"
    and "image_open u s1 = (Inr img, s2)"
    and "save img (image_format img) s2 = (Inl e, s')
         \<or> (\<exists>canon s3. save img (image_format img) s2 = (Inr canon, s3)
               \<and> remove canon s3 = (Inl e, s'))"
    and "isinstance_Exception e"
    and "\<not> isinstance_UnidentifiedImageError e"
  shows "post serializer image_open save remove d s =
           (Inr \<lparr>status_code = 500, response_content_type = None,
                 body = Data [(''error'', ''Failed to process image.''),
                              (''details'', str_exn e)]\<rparr>, s')"
  using assms
  by (auto simp: post_def try_body_def except_clauses_def response_defs)

theorem post_processing_error_witness:
  "post (is_valid 100) sample_open sample_save
     (sample_remove_raising (Raise Exception_other ''boom''))
     [''image'' \<mapsto> sample_png] world0 =
   (Inr \<lparr>status_code = 500, response_content_type = None,
         body = Data [(''error'', ''Failed to process image.''), (''details'', ''boom'')]\<rparr>,
    world0\<lparr>calls := [png_signature]\<rparr>)"
proof -
  have r: "sample_save \<lparr>format = Some ''PNG''\<rparr> (image_format \<lparr>format = Some ''PNG''\<rparr>) world0 =
             (Inl (Raise Exception_other ''boom''), world0\<lparr>calls := [png_signature]\<rparr>)
         \<or> (\<exists>canon s3. sample_save \<lparr>format = Some ''PNG''\<rparr>
                 (image_format \<lparr>format = Some ''PNG''\<rparr>) world0 = (Inr canon, s3)
               \<and> sample_remove_raising (Raise Exception_other ''boom'') canon s3 =
                   (Inl (Raise Exception_other ''boom''), world0\<lparr>calls := [png_signature]\<rparr>))"
    by (simp add: sample_save_png sample_remove_raising_def world0_def)
  have e: "isinstance_Exception (Raise Exception_other ''boom'')"
    and n: "\<not> isinstance_UnidentifiedImageError (Raise Exception_other ''boom'')"
    by simp_all
  show ?thesis
    using post_processing_error [where serializer = "is_valid 100" and image_open = sample_open
        and save = sample_save
        and remove = "sample_remove_raising (Raise Exception_other ''boom'')",
        OF is_valid_sample_png sample_open_png r e n]
    by simp
qed

section \<open>Validation errors\<close>

text \<open>
  C4. For every payload without the \<open>image\<close> field, and for every upload longer than the
  maximum, whatever its bytes are, the handler answers 400 with an error keyed by the field
  name. The decoder, the encoder and the removal function are arbitrary here, and the state is
  returned as it was: none of them is called, so the size check comes before any decoding.
\<close>

theorem post_validation_error:
  assumes "request_data ''image'' = None
         \<or> (\<exists>u. request_data ''image'' = Some u \<and> upload_size u > MAX_UPLOAD_SIZE)"
  shows "post (is_valid MAX_UPLOAD_SIZE) image_open save remove request_data s =
           (Inr \<lparr>status_code = 400, response_content_type = None,
                 body = Errors [(''image'',
                   [if request_data ''image'' = None then Required else Too_large])]\<rparr>, s)"
  using assms
  by (auto simp: post_def is_valid_def ImageUploadSerializer_def response_defs)

theorem post_validation_error_witness:
  "post (is_valid 9) sample_open sample_save sample_remove [''image'' \<mapsto> sample_png] world0 =
     (Inr \<lparr>status_code = 400, response_content_type = None,
           body = Errors [(''image'', [Too_large])]\<rparr>, world0)
   \<and> post (is_valid 9) sample_open sample_save sample_remove Map.empty world0 =
     (Inr \<lparr>status_code = 400, response_content_type = None,
           body = Errors [(''image'', [Required])]\<rparr>, world0)"
proof -
  have big: "[''image'' \<mapsto> sample_png] ''image'' = None
      \<or> (\<exists>u. [''image'' \<mapsto> sample_png] ''image'' = Some u \<and> upload_size u > 9)"
    by (simp add: upload_size_def sample_png_def png_signature_def)
  have missing: "(Map.empty :: string \<rightharpoonup> upload) ''image'' = None
      \<or> (\<exists>u. (Map.empty :: string \<rightharpoonup> upload) ''image'' = Some u \<and> upload_size u > 9)"
    by simp
  show ?thesis
    using post_validation_error [where image_open = sample_open and save = sample_save
        and remove = sample_remove and s = world0 and MAX_UPLOAD_SIZE = 9
        and request_data = "[''image'' \<mapsto> sample_png]", OF big]
      post_validation_error [where image_open = sample_open and save = sample_save
        and remove = sample_remove and s = world0 and MAX_UPLOAD_SIZE = 9
        and request_data = Map.empty, OF missing]
    by simp
qed

section \<open>What the removal function receives\<close>

text \<open>
  C5. For every validated upload that decodes, the handler saves the decoded image in its
  detected format, or in PNG when the format is \<open>None\<close> or empty, and the removal function is
  applied to the bytes the encoder wrote and to nothing else: the result of the handler is the
  result of the removal function on these bytes, a removal function that agrees with it on these
  bytes gives the same result whatever it does on other inputs (the raw upload among them), and
  so does any other upload that decodes to the same image, whatever bytes the decoder ignored.
\<close>

theorem post_forwards_canonical_bytes:
  fixes serializer :: "'d \<Rightarrow> 's \<Rightarrow> ('e + upload) \<times> 's"
  assumes "serializer d s = (Inr u, s1)"
    and "image_open u s1 = (Inr img, s2)"
    and "save img (image_format img) s2 = (Inr canon, s3)"
  shows "image_format img = (case format img of Some (c # cs) \<Rightarrow> c # cs | _ \<Rightarrow> ''PNG'')
       \<and> post serializer image_open save remove d s =
           (case remove canon s3 of
              (Inr output_bytes, s4) \<Rightarrow> (Inr (HttpResponse output_bytes ''image/png''), s4)
            | (Inl e, s4) \<Rightarrow> (except_clauses e, s4))
       \<and> (\<forall>remove'. remove' canon s3 = remove canon s3 \<longrightarrow>
             post serializer image_open save remove' d s =
             post serializer image_open save remove d s)
       \<and> (\<forall>d' u'. serializer d' s = (Inr u', s1) \<and> image_open u' s1 = (Inr img, s2) \<longrightarrow>
             post serializer image_open save remove d' s =
             post serializer image_open save remove d s)"
proof (intro conjI allI impI)
  show "image_format img = (case format img of Some (c # cs) \<Rightarrow> c # cs | _ \<Rightarrow> ''PNG'')"
    by (simp add: image_format_def split: option.splits list.splits)
next
  show "post serializer image_open save remove d s =
      (case remove canon s3 of
         (Inr output_bytes, s4) \<Rightarrow> (Inr (HttpResponse output_bytes ''image/png''), s4)
       | (Inl e, s4) \<Rightarrow> (except_clauses e, s4))"
    using assms by (simp add: post_def try_body_def split: prod.splits sum.splits)
next
  fix remove' :: "bytes \<Rightarrow> ('s, bytes) effect"
  assume "remove' canon s3 = remove canon s3"
  with assms show "post serializer image_open save remove' d s =
      post serializer image_open save remove d s"
    by (simp add: post_def try_body_def)
next
  fix d' u'
  assume "serializer d' s = (Inr u', s1) \<and> image_open u' s1 = (Inr img, s2)"
  with assms show "post serializer image_open save remove d' s =
      post serializer image_open save remove d s"
    by (simp add: post_def try_body_def)
qed

theorem post_forwards_canonical_bytes_witness:
  "post (is_valid 100) sample_open sample_save sample_remove [''image'' \<mapsto> sample_png] world0 =
     (Inr (HttpResponse (png_signature @ [1]) ''image/png''), world0\<lparr>calls := [png_signature]\<rparr>)
   \<and> content sample_png \<noteq> png_signature
   \<and> post (is_valid 100) sample_open sample_save (sample_remove_only png_signature)
        [''image'' \<mapsto> sample_png] world0 =
      post (is_valid 100) sample_open sample_save sample_remove
        [''image'' \<mapsto> sample_png] world0
   \<and> post (is_valid 100) sample_open sample_save sample_remove
        [''image'' \<mapsto> sample_png_padded] world0 =
      post (is_valid 100) sample_open sample_save sample_remove
        [''image'' \<mapsto> sample_png] world0"
proof -
  note th = post_forwards_canonical_bytes [where serializer = "is_valid 100"
      and image_open = sample_open and save = sample_save and remove = sample_remove
      and s = world0,
      OF is_valid_sample_png sample_open_png sample_save_png]
  have r: "sample_remove png_signature world0 =
      (Inr (png_signature @ [1]), world0\<lparr>calls := [png_signature]\<rparr>)"
    by (simp add: sample_remove_def world0_def)
  have a: "post (is_valid 100) sample_open sample_save sample_remove
       [''image'' \<mapsto> sample_png] world0 =
     (Inr (HttpResponse (png_signature @ [1]) ''image/png''), world0\<lparr>calls := [png_signature]\<rparr>)"
    using th r by simp
  have b: "content sample_png \<noteq> png_signature"
    by (simp add: sample_png_def)
  have "sample_remove_only png_signature png_signature world0 =
      sample_remove png_signature world0"
    by (simp add: sample_remove_only_def)
  with th have c: "post (is_valid 100) sample_open sample_save (sample_remove_only png_signature)
        [''image'' \<mapsto> sample_png] world0 =
      post (is_valid 100) sample_open sample_save sample_remove
        [''image'' \<mapsto> sample_png] world0"
    by blast
  have d: "post (is_valid 100) sample_open sample_save sample_remove
        [''image'' \<mapsto> sample_png_padded] world0 =
      post (is_valid 100) sample_open sample_save sample_remove
        [''image'' \<mapsto> sample_png] world0"
    using th is_valid_sample_png_padded [of world0] sample_open_png_padded [of world0]
    by blast
  from a b c d show ?thesis by blast
qed

section \<open>Declared name and content type\<close>

text \<open>
  C6. The declared name and content type of the upload do not matter: given a decoder that
  reads the byte stream of the file, two requests whose uploads differ only in declared name and
  content type get the same result, in the same state. In particular, when the bytes do not
  decode, the request is answered with the 400 of an invalid image whatever content type it
  declares.
\<close>

theorem post_ignores_declared_metadata:
  assumes "\<And>v v' t. content v = content v' \<Longrightarrow> image_open v t = image_open v' t"
    and "d ''image'' = Some u"
    and "d' ''image'' = Some (u\<lparr>name := n, content_type := ct\<rparr>)"
  shows "post (is_valid MAX_UPLOAD_SIZE) image_open save remove d' s =
         post (is_valid MAX_UPLOAD_SIZE) image_open save remove d s
       \<and> (\<forall>e s1. upload_size u \<le> MAX_UPLOAD_SIZE \<and> image_open u s = (Inl e, s1)
              \<and> isinstance_UnidentifiedImageError e \<longrightarrow>
            post (is_valid MAX_UPLOAD_SIZE) image_open save remove d' s =
              (Inr \<lparr>status_code = 400, response_content_type = None,
                    body = Data [(''error'', ''The uploaded file is not a valid image.'')]\<rparr>,
               s1))"
proof -
  have o: "image_open (u\<lparr>name := n, content_type := ct\<rparr>) t = image_open u t" for t
    by (rule assms(1)) simp
  have same: "post (is_valid MAX_UPLOAD_SIZE) image_open save remove d' s =
      post (is_valid MAX_UPLOAD_SIZE) image_open save remove d s"
    using assms(2,3) o
    by (simp add: post_def is_valid_def ImageUploadSerializer_def upload_size_def try_body_def)
  have "post (is_valid MAX_UPLOAD_SIZE) image_open save remove d s =
      (Inr \<lparr>status_code = 400, response_content_type = None,
            body = Data [(''error'', ''The uploaded file is not a valid image.'')]\<rparr>, s1)"
    if "upload_size u \<le> MAX_UPLOAD_SIZE" and "image_open u s = (Inl e, s1)"
      and "isinstance_UnidentifiedImageError e" for e s1
    using that assms(2)
    by (simp add: post_def is_valid_def ImageUploadSerializer_def try_body_def
        except_clauses_def response_defs)
  with same show ?thesis by simp
qed

theorem post_ignores_declared_metadata_witness:
  "post (is_valid 100) sample_open sample_save sample_remove [''image'' \<mapsto> sample_text] world0 =
   post (is_valid 100) sample_open sample_save sample_remove
     [''image'' \<mapsto> sample_text\<lparr>content_type := ''text/plain''\<rparr>] world0
   \<and> post (is_valid 100) sample_open sample_save sample_remove
       [''image'' \<mapsto> sample_text] world0 =
     (Inr \<lparr>status_code = 400, response_content_type = None,
           body = Data [(''error'', ''The uploaded file is not a valid image.'')]\<rparr>, world0)"
proof -
  have h1: "\<And>v v' t. content v = content v' \<Longrightarrow> sample_open v t = sample_open v' t"
    by (simp add: sample_open_def)
  have h2: "[''image'' \<mapsto> sample_text\<lparr>content_type := ''text/plain''\<rparr>] ''image'' =
      Some (sample_text\<lparr>content_type := ''text/plain''\<rparr>)"
    by simp
  have h3: "[''image'' \<mapsto> sample_text] ''image'' =
      Some (sample_text\<lparr>content_type := ''text/plain''\<rparr>
              \<lparr>name := ''not_image.txt'', content_type := ''image/png''\<rparr>)"
    by (simp add: sample_text_def)
  note th = post_ignores_declared_metadata [where image_open = sample_open
      and d = "[''image'' \<mapsto> sample_text\<lparr>content_type := ''text/plain''\<rparr>]"
      and d' = "[''image'' \<mapsto> sample_text]" and save = sample_save and remove = sample_remove
      and s = world0 and MAX_UPLOAD_SIZE = 100, OF h1 h2 h3]
  have sz: "upload_size (sample_text\<lparr>content_type := ''text/plain''\<rparr>) \<le> 100"
    by (simp add: upload_size_def sample_text_def)
  have op: "sample_open (sample_text\<lparr>content_type := ''text/plain''\<rparr>) world0 =
      (Inl (Raise UnidentifiedImageError ''cannot identify image file''), world0)"
    by (simp add: sample_open_def sample_text_def png_signature_def)
  have u: "isinstance_UnidentifiedImageError
             (Raise UnidentifiedImageError ''cannot identify image file'')"
    by simp
  from th sz op u show ?thesis by blast
qed

section \<open>Totality\<close>




section \<open>The file system\<close>




end
